theory Spec2Isabelle
  imports Complex_Main
begin

section \<open>Data model\<close>

text \<open>
  The component \<^verbatim>\<open>SurveyPointsTable\<close> of \<^verbatim>\<open>src/components/PointsTable.tsx\<close> receives a
  list of survey points, an access-point mapping table and two callbacks. JavaScript
  numbers are IEEE doubles; every finite double is a rational number, so a number is a
  \<open>rat\<close> here and the rounding that each floating-point operation performs is written
  out as a function \<open>rnd\<close> (see \<open>convertToMbps\<close>). Strings are lists of code units
  below 256.
\<close>

text \<open>
  Modelled from the spec: the declarations of \<^verbatim>\<open>SurveyPoint\<close> and \<^verbatim>\<open>ApMapping\<close> live in
  \<^verbatim>\<open>@/lib/types\<close>, which is not part of the sources at hand. The fields below are the
  ones the component reads (\<^verbatim>\<open>point.wifiData.bssid\<close>,
  \<^verbatim>\<open>point.iperfResults.tcpDownload.bitsPerSecond\<close>, \<^verbatim>\<open>ap.macAddress\<close>, \<^verbatim>\<open>ap.apName\<close>, ...)
  together with the ones that \<^verbatim>\<open>FlattenedSurveyPoint\<close> expects the two spreads to supply.
  The field \<^verbatim>\<open>id\<close> is written \<open>id'\<close>, since \<open>id\<close> is the identity function of HOL.
\<close>

record IperfTestProperty =
  bitsPerSecond :: rat

record IperfResults =
  tcpDownload :: IperfTestProperty
  tcpUpload :: IperfTestProperty
  udpDownload :: IperfTestProperty
  udpUpload :: IperfTestProperty

record WifiData =
  ssid :: string
  bssid :: string
  rssi :: rat
  channel :: rat
  security :: string
  txRate :: rat
  phyMode :: string
  channelWidth :: rat
  frequency :: rat

text \<open>
  The part of a column definition of the table library that names the column and says
  whether it sorts and hides: \<^verbatim>\<open>id\<close>, \<^verbatim>\<open>accessorKey\<close>, \<^verbatim>\<open>enableSorting\<close>,
  \<^verbatim>\<open>enableHiding\<close>, each optional. Headers and cell renderers draw the table and are
  left out.
\<close>

record ColumnDef =
  id' :: "string option"
  accessorKey :: "string option"
  enableSorting :: "bool option"
  enableHiding :: "bool option"

record SurveyPoint =
  id' :: string
  x :: rat
  y :: rat
  wifiData :: WifiData
  iperfResults :: IperfResults
  timestamp :: string
  isDisabled :: bool

record ApMapping =
  macAddress :: string
  apName :: string

text \<open>
  \<^verbatim>\<open>type FlattenedSurveyPoint\<close> (lines 36--55). The object that \<open>flattenedData\<close> builds
  also carries \<^verbatim>\<open>signalQuality\<close> and, through \<^verbatim>\<open>...point\<close>, the two nested objects.
\<close>

record FlattenedSurveyPoint =
  id' :: string
  x :: rat
  y :: rat
  ssid :: string
  bssid :: string
  rssi :: rat
  channel :: rat
  security :: string
  txRate :: rat
  phyMode :: string
  channelWidth :: rat
  frequency :: string
  tcpDownloadMbps :: rat
  tcpUploadMbps :: rat
  udpDownloadMbps :: rat
  udpUploadMbps :: rat
  timestamp :: string
  isDisabled :: bool
  signalQuality :: rat
  wifiData :: WifiData
  iperfResults :: IperfResults

text \<open>
  What the flattening takes from outside the component: the rounding of a real result
  to the nearest double (\<open>roundToDouble\<close>), \<^verbatim>\<open>rssiToPercentage\<close> of \<^verbatim>\<open>@/lib/utils\<close>,
  the conversion of a number to a string inside a template literal, and
  \<^verbatim>\<open>new Date(t).toLocaleString()\<close>, which depends on the locale of the host.
\<close>

record Host =
  roundToDouble :: "rat \<Rightarrow> rat"
  rssiToPercentage :: "rat \<Rightarrow> rat"
  numberToString :: "rat \<Rightarrow> string"
  toLocaleString :: "string \<Rightarrow> string"

section \<open>Unit conversion\<close>

text \<open>
  \<^verbatim>\<open>Math.round(x)\<close>: the integer closest to its argument; of two equally close integers the one
  closer to plus infinity. The result is exact (an integral double), so no rounding function
  appears.
\<close>

definition Math_round :: "rat \<Rightarrow> int" where
  "Math_round r = (if r - of_int \<lfloor>r\<rfloor> < 1 / 2 then \<lfloor>r\<rfloor> else \<lfloor>r\<rfloor> + 1)"

text \<open>
  \<^verbatim>\<open>Math.round((bitsPerSecond / 1000000) * 100) / 100\<close> (lines 215--217). The division,
  the multiplication and the last division each round their exact result to a double;
  \<open>rnd\<close> is that rounding. For a finite argument \<open>bps\<close> (the source's \<^verbatim>\<open>bitsPerSecond\<close>) no intermediate result
  overflows (the largest is below \<open>1.8 * 10^304\<close>).
\<close>

definition convertToMbps :: "(rat \<Rightarrow> rat) \<Rightarrow> rat \<Rightarrow> rat" where
  "convertToMbps rnd bps =
     rnd (of_int (Math_round (rnd (rnd (bps / 1000000) * 100))) / 100)"

text \<open>
  The conversion as the specification words it, \<^verbatim>\<open>round(v / 1_000_000 * 100) / 100\<close>, with
  \<open>round\<close> the rounding to the nearest integer of the HOL library and the same rounding
  of the three floating-point operations.
\<close>

definition bitsPerSecondToMbps :: "(rat \<Rightarrow> rat) \<Rightarrow> rat \<Rightarrow> rat" where
  "bitsPerSecondToMbps rnd v = rnd (of_int (round (rnd (rnd (v / 1000000) * 100))) / 100)"

section \<open>Row flattening\<close>

text \<open>
  The callback of \<^verbatim>\<open>data.map\<close> in \<open>flattenedData\<close> (lines 220--250). \<^verbatim>\<open>Array.find\<close>
  returns the first element that satisfies the predicate, \<^verbatim>\<open>?.apName\<close> is undefined
  when there is none, and \<^verbatim>\<open>if (mappedName)\<close> holds for a non-empty string only.
\<close>

definition flattenPoint :: "Host \<Rightarrow> ApMapping list \<Rightarrow> SurveyPoint \<Rightarrow> FlattenedSurveyPoint" where
  "flattenPoint h apMapping point =
     (let bssid0 = WifiData.bssid (SurveyPoint.wifiData point);
          bssid1 =
            (if length apMapping > 0 then
               (case map_option apName
                       (find (\<lambda>ap. macAddress ap = WifiData.bssid (SurveyPoint.wifiData point))
                          apMapping) of
                  None \<Rightarrow> bssid0
                | Some mappedName \<Rightarrow>
                    if mappedName \<noteq> []
                    then mappedName @ '' ('' @ WifiData.bssid (SurveyPoint.wifiData point) @ '')''
                    else bssid0)
             else bssid0)
      in \<lparr> id' = SurveyPoint.id' point,
           x = SurveyPoint.x point,
           y = SurveyPoint.y point,
           ssid = WifiData.ssid (SurveyPoint.wifiData point),
           bssid = bssid1,
           rssi = WifiData.rssi (SurveyPoint.wifiData point),
           channel = WifiData.channel (SurveyPoint.wifiData point),
           security = WifiData.security (SurveyPoint.wifiData point),
           txRate = WifiData.txRate (SurveyPoint.wifiData point),
           phyMode = WifiData.phyMode (SurveyPoint.wifiData point),
           channelWidth = WifiData.channelWidth (SurveyPoint.wifiData point),
           frequency =
             numberToString h (WifiData.frequency (SurveyPoint.wifiData point)) @ '' Mhz'',
           tcpDownloadMbps =
             convertToMbps (roundToDouble h)
               (bitsPerSecond (tcpDownload (SurveyPoint.iperfResults point))),
           tcpUploadMbps =
             convertToMbps (roundToDouble h)
               (bitsPerSecond (tcpUpload (SurveyPoint.iperfResults point))),
           udpDownloadMbps =
             convertToMbps (roundToDouble h)
               (bitsPerSecond (udpDownload (SurveyPoint.iperfResults point))),
           udpUploadMbps =
             convertToMbps (roundToDouble h)
               (bitsPerSecond (udpUpload (SurveyPoint.iperfResults point))),
           timestamp = toLocaleString h (SurveyPoint.timestamp point),
           isDisabled = SurveyPoint.isDisabled point,
           signalQuality = rssiToPercentage h (WifiData.rssi (SurveyPoint.wifiData point)),
           wifiData = SurveyPoint.wifiData point,
           iperfResults = SurveyPoint.iperfResults point \<rparr>)"

definition flattenedData :: "Host \<Rightarrow> SurveyPoint list \<Rightarrow> ApMapping list \<Rightarrow> FlattenedSurveyPoint list" where
  "flattenedData h data apMapping = map (flattenPoint h apMapping) data"

section \<open>Columns and their visibility\<close>

text \<open>
  The initial value of the \<^verbatim>\<open>columnVisibility\<close> state (lines 72--91): an object literal,
  kept as the list of its entries in source order and read with \<open>map_of\<close>.
\<close>

definition columnVisibility :: "(string \<times> bool) list" where
  "columnVisibility =
     [(''select'', True),
      (''id'', True),
      (''signalQuality'', True),
      (''bssid'', True),
      (''frequency'', True),
      (''tcpDownloadMbps'', True),
      (''tcpUploadMbps'', True),
      (''timestamp'', True),
      (''disable'', True),
      (''rssi'', False),
      (''ssid'', False),
      (''security'', False),
      (''txRate'', False),
      (''phyMode'', False),
      (''channelWidth'', False),
      (''channel'', False),
      (''x'', False),
      (''y'', False)]"

text \<open>The column definitions (lines 93--213), in source order.\<close>

definition columns :: "ColumnDef list" where
  "columns =
     [\<lparr>ColumnDef.id' = Some ''select'', accessorKey = None,
        enableSorting = Some False, enableHiding = Some False\<rparr>,
      \<lparr>ColumnDef.id' = None, accessorKey = Some ''id'',
        enableSorting = None, enableHiding = None\<rparr>,
      \<lparr>ColumnDef.id' = Some ''disable'', accessorKey = Some ''isDisabled'',
        enableSorting = Some True, enableHiding = None\<rparr>,
      \<lparr>ColumnDef.id' = None, accessorKey = Some ''rssi'',
        enableSorting = None, enableHiding = None\<rparr>,
      \<lparr>ColumnDef.id' = None, accessorKey = Some ''signalQuality'',
        enableSorting = None, enableHiding = None\<rparr>,
      \<lparr>ColumnDef.id' = None, accessorKey = Some ''bssid'',
        enableSorting = None, enableHiding = None\<rparr>,
      \<lparr>ColumnDef.id' = None, accessorKey = Some ''frequency'',
        enableSorting = None, enableHiding = None\<rparr>,
      \<lparr>ColumnDef.id' = None, accessorKey = Some ''channel'',
        enableSorting = None, enableHiding = None\<rparr>,
      \<lparr>ColumnDef.id' = None, accessorKey = Some ''tcpDownloadMbps'',
        enableSorting = None, enableHiding = None\<rparr>,
      \<lparr>ColumnDef.id' = None, accessorKey = Some ''tcpUploadMbps'',
        enableSorting = None, enableHiding = None\<rparr>,
      \<lparr>ColumnDef.id' = None, accessorKey = Some ''udpDownloadMbps'',
        enableSorting = None, enableHiding = None\<rparr>,
      \<lparr>ColumnDef.id' = None, accessorKey = Some ''udpUploadMbps'',
        enableSorting = None, enableHiding = None\<rparr>,
      \<lparr>ColumnDef.id' = None, accessorKey = Some ''timestamp'',
        enableSorting = None, enableHiding = None\<rparr>,
      \<lparr>ColumnDef.id' = None, accessorKey = Some ''ssid'',
        enableSorting = None, enableHiding = None\<rparr>,
      \<lparr>ColumnDef.id' = None, accessorKey = Some ''security'',
        enableSorting = None, enableHiding = None\<rparr>,
      \<lparr>ColumnDef.id' = None, accessorKey = Some ''txRate'',
        enableSorting = None, enableHiding = None\<rparr>,
      \<lparr>ColumnDef.id' = None, accessorKey = Some ''phyMode'',
        enableSorting = None, enableHiding = None\<rparr>,
      \<lparr>ColumnDef.id' = None, accessorKey = Some ''channelWidth'',
        enableSorting = None, enableHiding = None\<rparr>,
      \<lparr>ColumnDef.id' = None, accessorKey = Some ''x'',
        enableSorting = None, enableHiding = None\<rparr>,
      \<lparr>ColumnDef.id' = None, accessorKey = Some ''y'',
        enableSorting = None, enableHiding = None\<rparr>]"

text \<open>
  The key of a column: its \<^verbatim>\<open>id\<close> when the definition gives one, its \<^verbatim>\<open>accessorKey\<close>
  otherwise (none of the accessor keys here holds a dot, which the table library would
  replace). The visibility state is keyed by it.
\<close>

definition columnId :: "ColumnDef \<Rightarrow> string" where
  "columnId c =
     (case ColumnDef.id' c of
        Some i \<Rightarrow> i
      | None \<Rightarrow> (case accessorKey c of Some a \<Rightarrow> a | None \<Rightarrow> []))"

section \<open>Selection keys and row positions\<close>

text \<open>
  \<^verbatim>\<open>parseInt(string)\<close> with no radix, after ECMAScript: leading white space is dropped,
  a sign is read, a prefix \<^verbatim>\<open>0x\<close> or \<^verbatim>\<open>0X\<close> selects radix 16 (radix 10 otherwise), the
  longest prefix of digits of that radix is the numeral, and an empty numeral gives
  \<^verbatim>\<open>NaN\<close> (\<open>None\<close>). The result is kept as an exact integer: the double that JavaScript
  returns differs from it only beyond \<open>2^53\<close>, far above any array length, and \<open>-0\<close>
  indexes like \<open>0\<close>.
\<close>

definition isStrWhiteSpaceChar :: "char \<Rightarrow> bool" where
  "isStrWhiteSpaceChar c =
     (c \<in> set [CHR 0x09, CHR 0x0A, CHR 0x0B, CHR 0x0C, CHR 0x0D, CHR 0x20, CHR 0xA0])"

definition digitValue :: "char \<Rightarrow> nat option" where
  "digitValue c =
     (let n = (of_char c :: nat) in
      if 48 \<le> n \<and> n \<le> 57 then Some (n - 48)
      else if 97 \<le> n \<and> n \<le> 122 then Some (n - 87)
      else if 65 \<le> n \<and> n \<le> 90 then Some (n - 55)
      else None)"

definition isRadixDigit :: "nat \<Rightarrow> char \<Rightarrow> bool" where
  "isRadixDigit R c = (case digitValue c of None \<Rightarrow> False | Some d \<Rightarrow> d < R)"

definition parseInt :: "string \<Rightarrow> int option" where
  "parseInt string =
     (let S0 = dropWhile isStrWhiteSpaceChar string;
          sign = (if S0 \<noteq> [] \<and> hd S0 = CHR ''-'' then - 1 else (1 :: int));
          S1 = (if S0 \<noteq> [] \<and> (hd S0 = CHR ''+'' \<or> hd S0 = CHR ''-'') then tl S0 else S0);
          hex = (2 \<le> length S1 \<and> (take 2 S1 = ''0x'' \<or> take 2 S1 = ''0X''));
          R = (if hex then 16 else (10 :: nat));
          S2 = (if hex then drop 2 S1 else S1);
          Z = takeWhile (isRadixDigit R) S2
      in if Z = [] then None
         else Some (sign *
                int (foldl (\<lambda>m c. m * R + (case digitValue c of Some d \<Rightarrow> d | None \<Rightarrow> 0)) 0 Z)))"

text \<open>
  \<^verbatim>\<open>flattenedData[n]\<close> for the number \<open>n\<close> that \<open>parseInt\<close> returned: the element at
  position \<open>n\<close> when \<open>n\<close> is an integer from \<open>0\<close> up to the length (excluded), and
  \<^verbatim>\<open>undefined\<close> (\<open>None\<close>) for \<^verbatim>\<open>NaN\<close>, a negative number or a number past the end.
\<close>

definition arrayGet :: "'a list \<Rightarrow> int option \<Rightarrow> 'a option" where
  "arrayGet xs n =
     (case n of
        None \<Rightarrow> None
      | Some i \<Rightarrow> if 0 \<le> i \<and> i < int (length xs) then Some (xs ! nat i) else None)"

section \<open>Bulk actions\<close>

text \<open>
  The \<^verbatim>\<open>rowSelection\<close> state is an object; only its own keys are read. It is kept as
  the list of its entries in the order in which \<^verbatim>\<open>Object.keys\<close> enumerates them.
\<close>

type_synonym RowSelectionState = "(string \<times> bool) list"

definition Object_keys :: "RowSelectionState \<Rightarrow> string list" where
  "Object_keys rowSelection = map fst rowSelection"

text \<open>
  The calls that the component makes on its two callback props: \<^verbatim>\<open>onDelete(ids)\<close> and
  \<^verbatim>\<open>updateDatapoint(id, { isDisabled: b })\<close>. Reading \<^verbatim>\<open>.id\<close> of \<^verbatim>\<open>undefined\<close> throws a
  \<^verbatim>\<open>TypeError\<close>.
\<close>

datatype js_error = TypeError

datatype effect = OnDelete "string list" | UpdateDatapoint string bool

text \<open>
  \<^verbatim>\<open>Object.keys(rowSelection).map((index) => flattenedData[parseInt(index)].id)\<close>, the
  first statement of both handlers (lines 272--274 and 279--281), on the list of keys.
  The first key without a row throws, before either callback has been called.
\<close>

fun selectedIds :: "string list \<Rightarrow> FlattenedSurveyPoint list \<Rightarrow> js_error + string list" where
  "selectedIds [] flat = Inr []"
| "selectedIds (index # rest) flat =
     (case arrayGet flat (parseInt index) of
        None \<Rightarrow> Inl TypeError
      | Some row \<Rightarrow>
          (case selectedIds rest flat of
             Inl e \<Rightarrow> Inl e
           | Inr ids \<Rightarrow> Inr (FlattenedSurveyPoint.id' row # ids)))"

text \<open>\<open>handleDelete\<close> (lines 271--276): the calls made, or the error thrown.\<close>

definition handleDelete :: "RowSelectionState \<Rightarrow> FlattenedSurveyPoint list \<Rightarrow> js_error + effect list" where
  "handleDelete rowSelection flat =
     (case selectedIds (Object_keys rowSelection) flat of
        Inl e \<Rightarrow> Inl e
      | Inr ids \<Rightarrow> Inr [OnDelete ids])"

text \<open>
  \<open>toggleDisableSelected\<close> (lines 278--288). \<^verbatim>\<open>every\<close> looks each identifier up again
  with \<^verbatim>\<open>flattenedData.find\<close>, which returns the first row carrying it;
  \<^verbatim>\<open>?.isDisabled\<close> of no row is \<^verbatim>\<open>undefined\<close>, which counts as false. \<^verbatim>\<open>forEach\<close> then
  calls \<^verbatim>\<open>updateDatapoint\<close> once for each element of \<^verbatim>\<open>selectedIds\<close>, in order.
\<close>

definition toggleDisableSelected :: "RowSelectionState \<Rightarrow> FlattenedSurveyPoint list \<Rightarrow> js_error + effect list" where
  "toggleDisableSelected rowSelection flat =
     (case selectedIds (Object_keys rowSelection) flat of
        Inl e \<Rightarrow> Inl e
      | Inr ids \<Rightarrow>
          (let allHidden =
                 list_all
                   (\<lambda>i. case find (\<lambda>point. FlattenedSurveyPoint.id' point = i) flat of
                          None \<Rightarrow> False
                        | Some point \<Rightarrow> FlattenedSurveyPoint.isDisabled point)
                   ids
           in Inr (map (\<lambda>i. UpdateDatapoint i (\<not> allHidden)) ids)))"

text \<open>
  The condition \<^verbatim>\<open>Object.keys(rowSelection).length === 0\<close> that the component passes as
  \<^verbatim>\<open>disabled\<close> to the delete dialog (line 353) and to the toggle button (line 367).
\<close>

definition bulkActionsDisabled :: "RowSelectionState \<Rightarrow> bool" where
  "bulkActionsDisabled rowSelection = (length (Object_keys rowSelection) = 0)"

text \<open>
  The precondition on a selection: the keys parse, in order, to the row positions
  \<open>idxs\<close>, each below the number of flattened rows.
\<close>

definition selectsPositions :: "RowSelectionState \<Rightarrow> nat list \<Rightarrow> FlattenedSurveyPoint list \<Rightarrow> bool" where
  "selectsPositions rowSelection idxs flat =
     (map parseInt (Object_keys rowSelection) = map (\<lambda>i. Some (int i)) idxs
      \<and> list_all (\<lambda>i. i < length flat) idxs)"

text \<open>The same precondition, without naming the positions.\<close>

definition keysInRange :: "RowSelectionState \<Rightarrow> FlattenedSurveyPoint list \<Rightarrow> bool" where
  "keysInRange rowSelection flat =
     list_all
       (\<lambda>k. case parseInt k of None \<Rightarrow> False | Some i \<Rightarrow> 0 \<le> i \<and> i < int (length flat))
       (Object_keys rowSelection)"

section \<open>The bulk-action controls\<close>

text \<open>
  Modelled from the spec: the components \<^verbatim>\<open>AlertDialogModal\<close> (\<^verbatim>\<open>./AlertDialogModal\<close>) and
  \<^verbatim>\<open>Button\<close> (\<^verbatim>\<open>@/components/ui/button\<close>) are not part of the sources at hand. Following
  the specification, the dialog is a confirmation gate: a click on its trigger opens it
  unless it is disabled, \<^verbatim>\<open>onConfirm\<close> runs only when the user confirms the open dialog
  and \<^verbatim>\<open>onCancel\<close> only when the user dismisses it; a disabled button ignores clicks.
  From the component itself come the handlers wired to them (\<^verbatim>\<open>onConfirm={handleDelete}\<close>,
  \<^verbatim>\<open>onCancel={() => {}}\<close>, \<^verbatim>\<open>onClick={toggleDisableSelected}\<close>) and the \<^verbatim>\<open>disabled\<close>
  conditions. An error thrown by a handler is not caught by the component; it is
  recorded in the journal.
\<close>

datatype ui_event = ClickDeleteSelected | ConfirmDialog | CancelDialog | ClickToggleDisableSelected

datatype journal_entry = Called effect | Uncaught js_error

record ui_state =
  dialogOpen :: bool
  journal :: "journal_entry list"

definition outcome :: "js_error + effect list \<Rightarrow> journal_entry list" where
  "outcome r = (case r of Inl e \<Rightarrow> [Uncaught e] | Inr calls \<Rightarrow> map Called calls)"

fun step :: "RowSelectionState \<Rightarrow> FlattenedSurveyPoint list \<Rightarrow> ui_state \<Rightarrow> ui_event \<Rightarrow> ui_state" where
  "step rowSelection flat st ClickDeleteSelected =
     (if bulkActionsDisabled rowSelection then st else st\<lparr>dialogOpen := True\<rparr>)"
| "step rowSelection flat st ConfirmDialog =
     (if dialogOpen st
      then \<lparr>dialogOpen = False,
            journal = journal st @ outcome (handleDelete rowSelection flat)\<rparr>
      else st)"
| "step rowSelection flat st CancelDialog =
     (if dialogOpen st then st\<lparr>dialogOpen := False\<rparr> else st)"
| "step rowSelection flat st ClickToggleDisableSelected =
     (if bulkActionsDisabled rowSelection then st
      else st\<lparr>journal := journal st @ outcome (toggleDisableSelected rowSelection flat)\<rparr>)"

definition initial :: ui_state where
  "initial = \<lparr>dialogOpen = False, journal = []\<rparr>"

definition run :: "RowSelectionState \<Rightarrow> FlattenedSurveyPoint list \<Rightarrow> ui_event list \<Rightarrow> ui_state" where
  "run rowSelection flat evs = foldl (step rowSelection flat) initial evs"

fun isOnDelete :: "journal_entry \<Rightarrow> bool" where
  "isOnDelete (Called (OnDelete ids)) = True"
| "isOnDelete e = False"

section \<open>Sample inputs\<close>

text \<open>
  Concrete inputs for the closed theorems below. The host functions are fixed to simple
  ones (exact arithmetic, the identity): no statement below depends on the choice.
\<close>

definition sampleHost :: Host where
  "sampleHost =
     \<lparr>roundToDouble = (\<lambda>r. r), rssiToPercentage = (\<lambda>r. r),
      numberToString = (\<lambda>r. ''5180''), toLocaleString = (\<lambda>t. t)\<rparr>"

definition samplePoint :: "string \<Rightarrow> string \<Rightarrow> bool \<Rightarrow> SurveyPoint" where
  "samplePoint ident address disabled =
     \<lparr>SurveyPoint.id' = ident, SurveyPoint.x = 10, SurveyPoint.y = 20,
      SurveyPoint.wifiData =
        \<lparr>WifiData.ssid = ''home'', WifiData.bssid = address, WifiData.rssi = - 55,
         WifiData.channel = 36, WifiData.security = ''WPA2'', WifiData.txRate = 866,
         WifiData.phyMode = ''802.11ac'', WifiData.channelWidth = 80,
         WifiData.frequency = 5180\<rparr>,
      SurveyPoint.iperfResults =
        \<lparr>tcpDownload = \<lparr>bitsPerSecond = 941000000\<rparr>,
         tcpUpload = \<lparr>bitsPerSecond = 930000000\<rparr>,
         udpDownload = \<lparr>bitsPerSecond = 1005000\<rparr>,
         udpUpload = \<lparr>bitsPerSecond = 0\<rparr>\<rparr>,
      SurveyPoint.timestamp = ''2024-07-01T10:00:00Z'',
      SurveyPoint.isDisabled = disabled\<rparr>"

definition sampleRows :: "(string \<times> bool) list \<Rightarrow> FlattenedSurveyPoint list" where
  "sampleRows ps = flattenedData sampleHost (map (\<lambda>(i, d). samplePoint i ''AA:BB'' d) ps) []"

section \<open>Properties of the unit conversion\<close>

lemma Math_round_floor: "Math_round r = \<lfloor>r + 1 / 2\<rfloor>"
proof (cases "r - of_int \<lfloor>r\<rfloor> < 1 / 2")
  case True
  have "\<lfloor>r + 1 / 2\<rfloor> = \<lfloor>r\<rfloor>"
  proof (rule floor_unique)
    show "of_int \<lfloor>r\<rfloor> \<le> r + 1 / 2"
      using of_int_floor_le [of r] by linarith
    show "r + 1 / 2 < of_int \<lfloor>r\<rfloor> + 1"
      using True by linarith
  qed
  with True show ?thesis by (simp add: Math_round_def)
next
  case False
  have "\<lfloor>r + 1 / 2\<rfloor> = \<lfloor>r\<rfloor> + 1"
  proof (rule floor_unique)
    show "of_int (\<lfloor>r\<rfloor> + 1) \<le> r + 1 / 2"
      using False by simp
    show "r + 1 / 2 < of_int (\<lfloor>r\<rfloor> + 1) + 1"
      using floor_correct [of r] by simp
  qed
  with False show ?thesis by (simp add: Math_round_def)
qed

lemma Math_round_mono: "r \<le> s \<Longrightarrow> Math_round r \<le> Math_round s"
  by (simp add: Math_round_floor floor_mono)

text \<open>
  C6. For every number \<open>v\<close> (in particular every finite non-negative one, zero and very
  large values included) and whatever the rounding of the floating-point operations,
  the conversion of bits per second returns \<^verbatim>\<open>round(v / 1_000_000 * 100) / 100\<close>: the
  value at two decimals that the specification names. No case of \<open>v\<close> is treated apart.
\<close>

theorem convertToMbps_is_two_decimal_rounding:
  "convertToMbps rnd v = bitsPerSecondToMbps rnd v"
  by (simp add: convertToMbps_def bitsPerSecondToMbps_def Math_round_floor round_def)

text \<open>
  C7. The conversion is monotonic non-decreasing: when the rounding of the
  floating-point operations is monotonic (as rounding to the nearest double is) and
  \<open>v1 \<le> v2\<close>, the conversion of \<open>v1\<close> is at most the conversion of \<open>v2\<close>.
\<close>

theorem convertToMbps_mono:
  assumes rnd: "\<And>a b. a \<le> b \<Longrightarrow> rnd a \<le> rnd b"
    and le: "v1 \<le> v2"
  shows "convertToMbps rnd v1 \<le> convertToMbps rnd v2"
proof -
  from le have "v1 / 1000000 \<le> v2 / 1000000"
    by (simp add: divide_right_mono)
  then have "rnd (v1 / 1000000) * 100 \<le> rnd (v2 / 1000000) * 100"
    using rnd by simp
  then have "Math_round (rnd (rnd (v1 / 1000000) * 100))
      \<le> Math_round (rnd (rnd (v2 / 1000000) * 100))"
    using rnd by (intro Math_round_mono) blast
  then have "(of_int (Math_round (rnd (rnd (v1 / 1000000) * 100))) :: rat) / 100
      \<le> of_int (Math_round (rnd (rnd (v2 / 1000000) * 100))) / 100"
    by (simp add: divide_right_mono)
  then show ?thesis
    unfolding convertToMbps_def by (rule rnd)
qed

theorem convertToMbps_mono_witness:
  "(1004999 :: rat) \<le> 1005000
     \<and> convertToMbps (\<lambda>r. r) 1004999 = 1
     \<and> convertToMbps (\<lambda>r. r) 1005000 = 101 / 100
     \<and> convertToMbps (\<lambda>r. r) 1004999 \<le> convertToMbps (\<lambda>r. r) 1005000"
proof -
  have le: "(1004999 :: rat) \<le> 1005000" by simp
  have "convertToMbps (\<lambda>r. r) 1004999 \<le> convertToMbps (\<lambda>r. r) 1005000"
    using convertToMbps_mono [of "\<lambda>r. r" 1004999 1005000] le by blast
  moreover have "convertToMbps (\<lambda>r. r) 1004999 = 1"
    by code_simp
  moreover have "convertToMbps (\<lambda>r. r) 1005000 = 101 / 100"
    by code_simp
  ultimately show ?thesis using le by blast
qed

section \<open>Facts about the flattening, the selection and the controls\<close>

lemma label_eq:
  "FlattenedSurveyPoint.bssid (flattenPoint h apMapping point) =
     (case find (\<lambda>ap. macAddress ap = WifiData.bssid (SurveyPoint.wifiData point)) apMapping of
        None \<Rightarrow> WifiData.bssid (SurveyPoint.wifiData point)
      | Some ap \<Rightarrow>
          if apName ap \<noteq> []
          then apName ap @ '' ('' @ WifiData.bssid (SurveyPoint.wifiData point) @ '')''
          else WifiData.bssid (SurveyPoint.wifiData point))"
  by (cases apMapping) (simp_all add: flattenPoint_def Let_def split: option.splits)

lemma find_first_position:
  assumes "i < length xs" and "P (xs ! i)" and "\<forall>j<i. \<not> P (xs ! j)"
  shows "find P xs = Some (xs ! i)"
  using assms by (subst find_Some_iff) blast

lemma arrayGet_position: "i < length xs \<Longrightarrow> arrayGet xs (Some (int i)) = Some (xs ! i)"
  by (simp add: arrayGet_def)

lemma selectedIds_positions:
  "map parseInt keys = map (\<lambda>i. Some (int i)) idxs \<Longrightarrow> list_all (\<lambda>i. i < length flat) idxs
    \<Longrightarrow> selectedIds keys flat = Inr (map (\<lambda>i. FlattenedSurveyPoint.id' (flat ! i)) idxs)"
proof (induction keys arbitrary: idxs)
  case Nil
  then show ?case by simp
next
  case (Cons k ks)
  then obtain i rest where idxs: "idxs = i # rest"
    by (cases idxs) auto
  with Cons.prems have k: "parseInt k = Some (int i)" and i: "i < length flat"
    and rest: "map parseInt ks = map (\<lambda>i. Some (int i)) rest" "list_all (\<lambda>i. i < length flat) rest"
    by simp_all
  from Cons.IH [OF rest] k i idxs show ?case
    by (simp add: arrayGet_position)
qed

lemma selectedIds_error: "selectedIds keys flat = Inl e \<Longrightarrow> e = TypeError"
  by (cases e) simp

lemma selectedIds_Inr_iff:
  "(\<exists>ids. selectedIds keys flat = Inr ids) \<longleftrightarrow>
     list_all (\<lambda>k. case parseInt k of None \<Rightarrow> False | Some i \<Rightarrow> 0 \<le> i \<and> i < int (length flat)) keys"
proof (induction keys)
  case Nil
  show ?case by simp
next
  case (Cons k ks)
  show ?case
  proof (cases "arrayGet flat (parseInt k)")
    case None
    then have "\<not> (case parseInt k of None \<Rightarrow> False | Some i \<Rightarrow> 0 \<le> i \<and> i < int (length flat))"
      by (auto simp: arrayGet_def split: option.splits if_splits)
    with None show ?thesis by simp
  next
    case (Some row)
    then have "case parseInt k of None \<Rightarrow> False | Some i \<Rightarrow> 0 \<le> i \<and> i < int (length flat)"
      by (auto simp: arrayGet_def split: option.splits if_splits)
    with Some Cons.IH show ?thesis
      by (auto split: sum.splits)
  qed
qed

lemma find_by_id:
  assumes "distinct (map FlattenedSurveyPoint.id' flat)" and "i < length flat"
  shows "find (\<lambda>point. FlattenedSurveyPoint.id' point = FlattenedSurveyPoint.id' (flat ! i)) flat
           = Some (flat ! i)"
proof (rule find_first_position [OF assms(2)])
  show "FlattenedSurveyPoint.id' (flat ! i) = FlattenedSurveyPoint.id' (flat ! i)" ..
  show "\<forall>j<i. FlattenedSurveyPoint.id' (flat ! j) \<noteq> FlattenedSurveyPoint.id' (flat ! i)"
  proof (intro allI impI)
    fix j assume "j < i"
    with assms(2) have "j < length (map FlattenedSurveyPoint.id' flat)"
      and "i < length (map FlattenedSurveyPoint.id' flat)" and "j \<noteq> i"
      by simp_all
    with assms(1) have "map FlattenedSurveyPoint.id' flat ! j \<noteq> map FlattenedSurveyPoint.id' flat ! i"
      by (simp add: distinct_conv_nth)
    with \<open>j < i\<close> assms(2) show "FlattenedSurveyPoint.id' (flat ! j) \<noteq> FlattenedSurveyPoint.id' (flat ! i)"
      by simp
  qed
qed

lemma toggle_positions:
  assumes sel: "selectsPositions rowSelection idxs flat"
    and ids: "distinct (map FlattenedSurveyPoint.id' flat)"
  shows "toggleDisableSelected rowSelection flat =
     Inr (map (\<lambda>i. UpdateDatapoint (FlattenedSurveyPoint.id' (flat ! i))
                 (\<not> list_all (\<lambda>j. FlattenedSurveyPoint.isDisabled (flat ! j)) idxs)) idxs)"
proof -
  from sel have range: "list_all (\<lambda>i. i < length flat) idxs"
    and res: "selectedIds (Object_keys rowSelection) flat
        = Inr (map (\<lambda>i. FlattenedSurveyPoint.id' (flat ! i)) idxs)"
    by (simp_all add: selectsPositions_def selectedIds_positions)
  have "list_all
          (\<lambda>i. case find (\<lambda>point. FlattenedSurveyPoint.id' point = i) flat of
                 None \<Rightarrow> False
               | Some point \<Rightarrow> FlattenedSurveyPoint.isDisabled point)
          (map (\<lambda>i. FlattenedSurveyPoint.id' (flat ! i)) idxs)
        = list_all (\<lambda>j. FlattenedSurveyPoint.isDisabled (flat ! j)) idxs"
    using range by (induction idxs) (simp_all add: find_by_id [OF ids])
  with res show ?thesis
    by (simp add: toggleDisableSelected_def comp_def)
qed

lemma outcome_toggle_no_delete:
  "filter isOnDelete (outcome (toggleDisableSelected rowSelection flat)) = []"
  by (auto simp: outcome_def toggleDisableSelected_def Let_def filter_empty_conv split: sum.splits)

lemma outcome_delete_at_most_one:
  "length (filter isOnDelete (outcome (handleDelete rowSelection flat))) \<le> 1"
  by (simp add: outcome_def handleDelete_def split: sum.splits)

lemma step_onDelete_count:
  "length (filter isOnDelete (journal (step rowSelection flat st ev)))
     \<le> length (filter isOnDelete (journal st)) + (if ev = ConfirmDialog then 1 else 0)"
  using outcome_delete_at_most_one [of rowSelection flat]
  by (cases ev) (simp_all add: outcome_toggle_no_delete)

lemma foldl_onDelete_count:
  "length (filter isOnDelete (journal (foldl (step rowSelection flat) st evs)))
     \<le> length (filter isOnDelete (journal st)) + count_list evs ConfirmDialog"
proof (induction evs arbitrary: st)
  case Nil
  show ?case by simp
next
  case (Cons ev evs)
  have "length (filter isOnDelete (journal (foldl (step rowSelection flat) (step rowSelection flat st ev) evs)))
      \<le> length (filter isOnDelete (journal (step rowSelection flat st ev))) + count_list evs ConfirmDialog"
    by (rule Cons.IH)
  also have "\<dots> \<le> length (filter isOnDelete (journal st)) + (if ev = ConfirmDialog then 1 else 0)
      + count_list evs ConfirmDialog"
    using step_onDelete_count [of rowSelection flat st ev] by simp
  finally show ?case by (cases "ev = ConfirmDialog") simp_all
qed

lemma run_onDelete_count:
  "length (filter isOnDelete (journal (run rowSelection flat evs))) \<le> count_list evs ConfirmDialog"
  using foldl_onDelete_count [of rowSelection flat initial evs]
  by (simp add: run_def initial_def)

lemma step_disabled:
  "bulkActionsDisabled rowSelection \<Longrightarrow> \<not> dialogOpen st \<Longrightarrow> step rowSelection flat st ev = st"
  by (cases ev) simp_all

lemma foldl_disabled:
  "bulkActionsDisabled rowSelection \<Longrightarrow> \<not> dialogOpen st
     \<Longrightarrow> foldl (step rowSelection flat) st evs = st"
  by (induction evs) (simp_all add: step_disabled)

section \<open>The flattening of records into rows\<close>

text \<open>
  C4. For every list of records, flattening with an empty mapping list returns a list
  of rows of the same length and in the same order as the records (row by row the same
  identifier and the same nested measurement objects), and the access-point label of
  every row is the raw link address of its record.
\<close>

theorem flatten_empty_mapping_preserves:
  "length (flattenedData h data []) = length data
   \<and> map FlattenedSurveyPoint.id' (flattenedData h data []) = map SurveyPoint.id' data
   \<and> map FlattenedSurveyPoint.wifiData (flattenedData h data []) = map SurveyPoint.wifiData data
   \<and> map FlattenedSurveyPoint.iperfResults (flattenedData h data [])
       = map SurveyPoint.iperfResults data
   \<and> map FlattenedSurveyPoint.bssid (flattenedData h data [])
       = map (\<lambda>point. WifiData.bssid (SurveyPoint.wifiData point)) data"
  by (simp add: flattenedData_def flattenPoint_def comp_def)

text \<open>
  C3, as stated, fails: the mapping list \<^verbatim>\<open>[{macAddress: "AA:BB", apName: ""}]\<close> is not
  empty and its first entry has the link address \<^verbatim>\<open>AA:BB\<close> of the record, yet the label
  is the raw address \<^verbatim>\<open>AA:BB\<close> and not \<^verbatim>\<open>" (AA:BB)"\<close>, because \<^verbatim>\<open>if (mappedName)\<close> rejects
  the empty name.
\<close>

theorem label_empty_apName_counterexample:
  "macAddress \<lparr>macAddress = ''AA:BB'', apName = ''''\<rparr>
     = WifiData.bssid (SurveyPoint.wifiData (samplePoint ''p1'' ''AA:BB'' False))
   \<and> FlattenedSurveyPoint.bssid
       (flattenPoint sampleHost [\<lparr>macAddress = ''AA:BB'', apName = ''''\<rparr>]
          (samplePoint ''p1'' ''AA:BB'' False))
     \<noteq> apName \<lparr>macAddress = ''AA:BB'', apName = ''''\<rparr> @ '' ('' @ ''AA:BB'' @ '')''
   \<and> FlattenedSurveyPoint.bssid
       (flattenPoint sampleHost [\<lparr>macAddress = ''AA:BB'', apName = ''''\<rparr>]
          (samplePoint ''p1'' ''AA:BB'' False))
     = ''AA:BB''"
  by (simp add: flattenPoint_def samplePoint_def)

text \<open>
  C3, amended. For every record and every mapping list: when the first mapping entry
  (in mapping-table order) whose address equals the link address of the record has a
  non-empty name, the label of the flattened row is that name, a space and the address
  in parentheses; when no entry matches, the label is the raw address unchanged.
\<close>

theorem label_first_match:
  "(i < length apMapping
      \<and> macAddress (apMapping ! i) = WifiData.bssid (SurveyPoint.wifiData point)
      \<and> (\<forall>j<i. macAddress (apMapping ! j) \<noteq> WifiData.bssid (SurveyPoint.wifiData point))
      \<and> apName (apMapping ! i) \<noteq> []
    \<longrightarrow> FlattenedSurveyPoint.bssid (flattenPoint h apMapping point)
          = apName (apMapping ! i) @ '' ('' @ WifiData.bssid (SurveyPoint.wifiData point) @ '')'')
   \<and> ((\<forall>ap\<in>set apMapping. macAddress ap \<noteq> WifiData.bssid (SurveyPoint.wifiData point))
    \<longrightarrow> FlattenedSurveyPoint.bssid (flattenPoint h apMapping point)
          = WifiData.bssid (SurveyPoint.wifiData point))"
proof (intro conjI impI)
  assume "i < length apMapping
      \<and> macAddress (apMapping ! i) = WifiData.bssid (SurveyPoint.wifiData point)
      \<and> (\<forall>j<i. macAddress (apMapping ! j) \<noteq> WifiData.bssid (SurveyPoint.wifiData point))
      \<and> apName (apMapping ! i) \<noteq> []"
  then have "find (\<lambda>ap. macAddress ap = WifiData.bssid (SurveyPoint.wifiData point)) apMapping
      = Some (apMapping ! i)" and "apName (apMapping ! i) \<noteq> []"
    by (simp_all add: find_first_position)
  then show "FlattenedSurveyPoint.bssid (flattenPoint h apMapping point)
      = apName (apMapping ! i) @ '' ('' @ WifiData.bssid (SurveyPoint.wifiData point) @ '')''"
    by (simp add: label_eq)
next
  assume "\<forall>ap\<in>set apMapping. macAddress ap \<noteq> WifiData.bssid (SurveyPoint.wifiData point)"
  then have "find (\<lambda>ap. macAddress ap = WifiData.bssid (SurveyPoint.wifiData point)) apMapping = None"
    by (simp add: find_None_iff)
  then show "FlattenedSurveyPoint.bssid (flattenPoint h apMapping point)
      = WifiData.bssid (SurveyPoint.wifiData point)"
    by (simp add: label_eq)
qed

theorem label_first_match_witness:
  "FlattenedSurveyPoint.bssid
     (flattenPoint sampleHost
        [\<lparr>macAddress = ''CC:DD'', apName = ''Attic''\<rparr>,
         \<lparr>macAddress = ''AA:BB'', apName = ''Router1''\<rparr>,
         \<lparr>macAddress = ''AA:BB'', apName = ''Router2''\<rparr>]
        (samplePoint ''p1'' ''AA:BB'' False)) = ''Router1 (AA:BB)''
   \<and> FlattenedSurveyPoint.bssid
     (flattenPoint sampleHost [\<lparr>macAddress = ''CC:DD'', apName = ''Attic''\<rparr>]
        (samplePoint ''p1'' ''AA:BB'' False)) = ''AA:BB''"
proof -
  have b: "WifiData.bssid (SurveyPoint.wifiData (samplePoint ''p1'' ''AA:BB'' False)) = ''AA:BB''"
    by (simp add: samplePoint_def)
  have "\<forall>j<Suc 0. macAddress ([\<lparr>macAddress = ''CC:DD'', apName = ''Attic''\<rparr>,
         \<lparr>macAddress = ''AA:BB'', apName = ''Router1''\<rparr>,
         \<lparr>macAddress = ''AA:BB'', apName = ''Router2''\<rparr>] ! j) \<noteq> ''AA:BB''"
    by simp
  then have first: "FlattenedSurveyPoint.bssid
     (flattenPoint sampleHost
        [\<lparr>macAddress = ''CC:DD'', apName = ''Attic''\<rparr>,
         \<lparr>macAddress = ''AA:BB'', apName = ''Router1''\<rparr>,
         \<lparr>macAddress = ''AA:BB'', apName = ''Router2''\<rparr>]
        (samplePoint ''p1'' ''AA:BB'' False)) = ''Router1 (AA:BB)''"
    using label_first_match [of "Suc 0" "[\<lparr>macAddress = ''CC:DD'', apName = ''Attic''\<rparr>,
         \<lparr>macAddress = ''AA:BB'', apName = ''Router1''\<rparr>,
         \<lparr>macAddress = ''AA:BB'', apName = ''Router2''\<rparr>]" "samplePoint ''p1'' ''AA:BB'' False" sampleHost]
    by (simp add: b)
  have none: "FlattenedSurveyPoint.bssid
     (flattenPoint sampleHost [\<lparr>macAddress = ''CC:DD'', apName = ''Attic''\<rparr>]
        (samplePoint ''p1'' ''AA:BB'' False)) = ''AA:BB''"
    using label_first_match [of 0 "[\<lparr>macAddress = ''CC:DD'', apName = ''Attic''\<rparr>]"
        "samplePoint ''p1'' ''AA:BB'' False" sampleHost]
    by (simp add: b)
  from first none show ?thesis by blast
qed

text \<open>
  C10. If the first mapping entry whose address equals the link address of a record has
  an empty name, the label of the flattened row is the raw address; and a label other
  than the raw address arises only from a first matching entry with a non-empty name,
  in the format name, space, address in parentheses.
\<close>

theorem label_falls_back_on_empty_apName:
  "(find (\<lambda>a. macAddress a = WifiData.bssid (SurveyPoint.wifiData point)) apMapping = Some ap
      \<and> apName ap = []
    \<longrightarrow> FlattenedSurveyPoint.bssid (flattenPoint h apMapping point)
          = WifiData.bssid (SurveyPoint.wifiData point))
   \<and> (FlattenedSurveyPoint.bssid (flattenPoint h apMapping point)
        \<noteq> WifiData.bssid (SurveyPoint.wifiData point)
    \<longrightarrow> (\<exists>m. find (\<lambda>a. macAddress a = WifiData.bssid (SurveyPoint.wifiData point)) apMapping
                = Some m
            \<and> apName m \<noteq> []
            \<and> FlattenedSurveyPoint.bssid (flattenPoint h apMapping point)
                = apName m @ '' ('' @ WifiData.bssid (SurveyPoint.wifiData point) @ '')''))"
  by (auto simp: label_eq split: option.splits if_splits)

theorem label_falls_back_on_empty_apName_witness:
  "find (\<lambda>a. macAddress a = WifiData.bssid (SurveyPoint.wifiData (samplePoint ''p1'' ''AA:BB'' False)))
     [\<lparr>macAddress = ''AA:BB'', apName = ''''\<rparr>, \<lparr>macAddress = ''AA:BB'', apName = ''Router2''\<rparr>]
     = Some \<lparr>macAddress = ''AA:BB'', apName = ''''\<rparr>
   \<and> FlattenedSurveyPoint.bssid
       (flattenPoint sampleHost
          [\<lparr>macAddress = ''AA:BB'', apName = ''''\<rparr>, \<lparr>macAddress = ''AA:BB'', apName = ''Router2''\<rparr>]
          (samplePoint ''p1'' ''AA:BB'' False)) = ''AA:BB''"
proof -
  have f: "find (\<lambda>a. macAddress a = WifiData.bssid (SurveyPoint.wifiData (samplePoint ''p1'' ''AA:BB'' False)))
     [\<lparr>macAddress = ''AA:BB'', apName = ''''\<rparr>, \<lparr>macAddress = ''AA:BB'', apName = ''Router2''\<rparr>]
     = Some \<lparr>macAddress = ''AA:BB'', apName = ''''\<rparr>"
    by (simp add: samplePoint_def)
  have "FlattenedSurveyPoint.bssid
       (flattenPoint sampleHost
          [\<lparr>macAddress = ''AA:BB'', apName = ''''\<rparr>, \<lparr>macAddress = ''AA:BB'', apName = ''Router2''\<rparr>]
          (samplePoint ''p1'' ''AA:BB'' False))
      = WifiData.bssid (SurveyPoint.wifiData (samplePoint ''p1'' ''AA:BB'' False))"
    using label_falls_back_on_empty_apName
      [of "samplePoint ''p1'' ''AA:BB'' False"
          "[\<lparr>macAddress = ''AA:BB'', apName = ''''\<rparr>, \<lparr>macAddress = ''AA:BB'', apName = ''Router2''\<rparr>]"
          "\<lparr>macAddress = ''AA:BB'', apName = ''''\<rparr>" sampleHost] f
    by simp
  then show ?thesis using f by (simp add: samplePoint_def)
qed

section \<open>Selection keys\<close>

text \<open>
  C9. Both handlers parse each selection key as an integer and index the flattened rows
  with it. When every key parses to an index, an integer from zero up to the number of
  flattened rows (excluded), the resolution of identifiers returns a list of
  identifiers and neither handler throws: \<open>handleDelete\<close> calls \<^verbatim>\<open>onDelete\<close> with that
  list and \<open>toggleDisableSelected\<close> updates each of its elements. Otherwise some key
  indexes no row, and reading its \<^verbatim>\<open>id\<close> throws in both handlers. (A key such as
  \<^verbatim>\<open>-1\<close> parses to an integer below the length, yet is no index of the array.)
\<close>

theorem selection_keys_resolve_iff_in_range:
  "(keysInRange rowSelection flat \<longrightarrow>
      (\<exists>ids. selectedIds (Object_keys rowSelection) flat = Inr ids
         \<and> handleDelete rowSelection flat = Inr [OnDelete ids]
         \<and> (\<exists>target. toggleDisableSelected rowSelection flat
               = Inr (map (\<lambda>i. UpdateDatapoint i target) ids))))
   \<and> (\<not> keysInRange rowSelection flat \<longrightarrow>
        (\<exists>k\<in>set (Object_keys rowSelection). arrayGet flat (parseInt k) = None)
        \<and> selectedIds (Object_keys rowSelection) flat = Inl TypeError
        \<and> handleDelete rowSelection flat = Inl TypeError
        \<and> toggleDisableSelected rowSelection flat = Inl TypeError)"
proof (intro conjI impI)
  assume "keysInRange rowSelection flat"
  then obtain ids where "selectedIds (Object_keys rowSelection) flat = Inr ids"
    using selectedIds_Inr_iff [of "Object_keys rowSelection" flat]
    by (auto simp: keysInRange_def)
  then show "\<exists>ids. selectedIds (Object_keys rowSelection) flat = Inr ids
         \<and> handleDelete rowSelection flat = Inr [OnDelete ids]
         \<and> (\<exists>target. toggleDisableSelected rowSelection flat
               = Inr (map (\<lambda>i. UpdateDatapoint i target) ids))"
    by (simp add: handleDelete_def toggleDisableSelected_def Let_def)
next
  assume out: "\<not> keysInRange rowSelection flat"
  then show "\<exists>k\<in>set (Object_keys rowSelection). arrayGet flat (parseInt k) = None"
    by (auto simp: keysInRange_def list_all_iff arrayGet_def split: option.splits)
  from out have "\<not> (\<exists>ids. selectedIds (Object_keys rowSelection) flat = Inr ids)"
    using selectedIds_Inr_iff [of "Object_keys rowSelection" flat]
    by (simp add: keysInRange_def)
  then obtain e where "selectedIds (Object_keys rowSelection) flat = Inl e"
    by (cases "selectedIds (Object_keys rowSelection) flat") auto
  then show err: "selectedIds (Object_keys rowSelection) flat = Inl TypeError"
    using selectedIds_error by blast
  then show "handleDelete rowSelection flat = Inl TypeError"
    by (simp add: handleDelete_def)
  from err show "toggleDisableSelected rowSelection flat = Inl TypeError"
    by (simp add: toggleDisableSelected_def)
qed

theorem selection_keys_resolve_iff_in_range_witness:
  "keysInRange [(''0'', True), (''1'', True)] (sampleRows [(''A'', False), (''B'', True)])
   \<and> handleDelete [(''0'', True), (''1'', True)] (sampleRows [(''A'', False), (''B'', True)])
       = Inr [OnDelete [''A'', ''B'']]
   \<and> \<not> keysInRange [(''0'', True), (''2'', True)] (sampleRows [(''A'', False), (''B'', True)])
   \<and> handleDelete [(''0'', True), (''2'', True)] (sampleRows [(''A'', False), (''B'', True)])
       = Inl TypeError
   \<and> \<not> keysInRange [(''-1'', True)] (sampleRows [(''A'', False), (''B'', True)])
   \<and> toggleDisableSelected [(''-1'', True)] (sampleRows [(''A'', False), (''B'', True)])
       = Inl TypeError"
proof -
  have inr: "keysInRange [(''0'', True), (''1'', True)] (sampleRows [(''A'', False), (''B'', True)])"
    by code_simp
  have out: "\<not> keysInRange [(''0'', True), (''2'', True)] (sampleRows [(''A'', False), (''B'', True)])"
    by code_simp
  have neg: "\<not> keysInRange [(''-1'', True)] (sampleRows [(''A'', False), (''B'', True)])"
    by code_simp
  have ids: "selectedIds (Object_keys [(''0'', True), (''1'', True)])
      (sampleRows [(''A'', False), (''B'', True)]) = Inr [''A'', ''B'']"
    by code_simp
  from selection_keys_resolve_iff_in_range
         [of "[(''0'', True), (''1'', True)]" "sampleRows [(''A'', False), (''B'', True)]"] inr ids
  have "handleDelete [(''0'', True), (''1'', True)] (sampleRows [(''A'', False), (''B'', True)])
       = Inr [OnDelete [''A'', ''B'']]"
    by auto
  moreover from selection_keys_resolve_iff_in_range
         [of "[(''0'', True), (''2'', True)]" "sampleRows [(''A'', False), (''B'', True)]"] out
  have "handleDelete [(''0'', True), (''2'', True)] (sampleRows [(''A'', False), (''B'', True)])
       = Inl TypeError"
    by blast
  moreover from selection_keys_resolve_iff_in_range
         [of "[(''-1'', True)]" "sampleRows [(''A'', False), (''B'', True)]"] neg
  have "toggleDisableSelected [(''-1'', True)] (sampleRows [(''A'', False), (''B'', True)])
       = Inl TypeError"
    by blast
  ultimately show ?thesis using inr out neg by blast
qed

section \<open>Toggle-disable\<close>

text \<open>
  C1, as stated, fails for two selections. With two rows and the stale key \<^verbatim>\<open>2\<close> the
  operation throws before any update is made. With two rows that carry the same
  identifier, the first enabled and the second disabled, and the second one selected,
  every selected row is disabled, so the target state of the claim is enabled; the code
  looks the identifier up, finds the first row and disables.
\<close>

theorem toggleDisableSelected_counterexample:
  "toggleDisableSelected [(''2'', True)] (sampleRows [(''A'', False), (''B'', False)])
     = Inl TypeError
   \<and> FlattenedSurveyPoint.isDisabled (sampleRows [(''A'', False), (''A'', True)] ! 1)
   \<and> toggleDisableSelected [(''1'', True)] (sampleRows [(''A'', False), (''A'', True)])
     = Inr [UpdateDatapoint ''A'' True]"
  by code_simp

text \<open>
  C1, amended. For every selection whose keys parse to pairwise distinct row positions
  below the number of flattened rows, over rows with pairwise distinct identifiers, the
  toggle-disable operation computes the single target state
  \<open>target = \<not> (every selected row is disabled)\<close> and calls the per-record update exactly
  once for each selected record identifier, in key order, with the patch
  \<^verbatim>\<open>{isDisabled: target}\<close>. In particular a mixed or all-enabled selection is disabled as
  a whole and a uniformly disabled selection is re-enabled as a whole.
\<close>

theorem toggleDisableSelected_single_target:
  assumes sel: "selectsPositions rowSelection idxs flat"
    and pos: "distinct idxs"
    and ids: "distinct (map FlattenedSurveyPoint.id' flat)"
  shows "toggleDisableSelected rowSelection flat =
           Inr (map (\<lambda>i. UpdateDatapoint (FlattenedSurveyPoint.id' (flat ! i))
                        (\<not> (\<forall>j\<in>set idxs. FlattenedSurveyPoint.isDisabled (flat ! j)))) idxs)
         \<and> distinct (map (\<lambda>i. FlattenedSurveyPoint.id' (flat ! i)) idxs)
         \<and> ((\<exists>j\<in>set idxs. \<not> FlattenedSurveyPoint.isDisabled (flat ! j)) \<longrightarrow>
              toggleDisableSelected rowSelection flat =
                Inr (map (\<lambda>i. UpdateDatapoint (FlattenedSurveyPoint.id' (flat ! i)) True) idxs))
         \<and> ((\<forall>j\<in>set idxs. FlattenedSurveyPoint.isDisabled (flat ! j)) \<longrightarrow>
              toggleDisableSelected rowSelection flat =
                Inr (map (\<lambda>i. UpdateDatapoint (FlattenedSurveyPoint.id' (flat ! i)) False) idxs))"
proof -
  have eq: "toggleDisableSelected rowSelection flat =
           Inr (map (\<lambda>i. UpdateDatapoint (FlattenedSurveyPoint.id' (flat ! i))
                        (\<not> (\<forall>j\<in>set idxs. FlattenedSurveyPoint.isDisabled (flat ! j)))) idxs)"
    using toggle_positions [OF sel ids] by (simp add: list_all_iff)
  from sel have range: "\<forall>i\<in>set idxs. i < length flat"
    by (simp add: selectsPositions_def list_all_iff)
  have "inj_on (\<lambda>i. FlattenedSurveyPoint.id' (flat ! i)) (set idxs)"
  proof (rule inj_onI)
    fix a b
    assume a: "a \<in> set idxs" and b: "b \<in> set idxs"
      and same: "FlattenedSurveyPoint.id' (flat ! a) = FlattenedSurveyPoint.id' (flat ! b)"
    from a b range have la: "a < length flat" and lb: "b < length flat"
      by simp_all
    show "a = b"
    proof (rule ccontr)
      assume "a \<noteq> b"
      with ids la lb
      have "map FlattenedSurveyPoint.id' flat ! a \<noteq> map FlattenedSurveyPoint.id' flat ! b"
        by (simp add: distinct_conv_nth)
      with same la lb show False by simp
    qed
  qed
  with pos have dist: "distinct (map (\<lambda>i. FlattenedSurveyPoint.id' (flat ! i)) idxs)"
    by (simp add: distinct_map)
  from eq dist show ?thesis by simp
qed

theorem toggleDisableSelected_single_target_witness:
  "selectsPositions [(''0'', True), (''1'', True)] [0, 1] (sampleRows [(''A'', True), (''B'', False)])
   \<and> distinct [0 :: nat, 1]
   \<and> distinct (map FlattenedSurveyPoint.id' (sampleRows [(''A'', True), (''B'', False)]))
   \<and> toggleDisableSelected [(''0'', True), (''1'', True)] (sampleRows [(''A'', True), (''B'', False)])
       = Inr [UpdateDatapoint ''A'' True, UpdateDatapoint ''B'' True]"
proof -
  have sel: "selectsPositions [(''0'', True), (''1'', True)] [0, 1]
      (sampleRows [(''A'', True), (''B'', False)])"
    by code_simp
  have pos: "distinct [0 :: nat, 1]"
    by simp
  have ids: "distinct (map FlattenedSurveyPoint.id' (sampleRows [(''A'', True), (''B'', False)]))"
    by code_simp
  have "toggleDisableSelected [(''0'', True), (''1'', True)] (sampleRows [(''A'', True), (''B'', False)])
      = Inr (map (\<lambda>i. UpdateDatapoint
                 (FlattenedSurveyPoint.id' (sampleRows [(''A'', True), (''B'', False)] ! i))
                 (\<not> (\<forall>j\<in>set [0, 1].
                      FlattenedSurveyPoint.isDisabled (sampleRows [(''A'', True), (''B'', False)] ! j))))
              [0, 1])"
    using toggleDisableSelected_single_target [OF sel pos ids] by blast
  also have "\<dots> = Inr [UpdateDatapoint ''A'' True, UpdateDatapoint ''B'' True]"
    by code_simp
  finally show ?thesis using sel pos ids by blast
qed

section \<open>Delete with confirmation\<close>

text \<open>
  C2, as stated, fails for the non-empty selection with the stale key \<^verbatim>\<open>2\<close> over two
  rows: confirming the dialog runs \<open>handleDelete\<close>, which throws while resolving the
  key, and \<^verbatim>\<open>onDelete\<close> is not called at all.
\<close>

theorem delete_stale_selection_counterexample:
  "Object_keys [(''2'', True)] \<noteq> []
   \<and> handleDelete [(''2'', True)] (sampleRows [(''A'', False), (''B'', False)]) = Inl TypeError
   \<and> run [(''2'', True)] (sampleRows [(''A'', False), (''B'', False)])
       [ClickDeleteSelected, ConfirmDialog]
     = \<lparr>dialogOpen = False, journal = [Uncaught TypeError]\<rparr>"
  by code_simp

text \<open>
  C2, amended. For every non-empty selection whose keys parse to row positions below the
  number of flattened rows, opening the delete dialog and confirming calls \<^verbatim>\<open>onDelete\<close>
  exactly once, with the list of the identifiers of the rows at the selected positions
  of the current flattened rows; opening it and cancelling calls nothing; and in every
  sequence of events on the controls there are at most as many calls of \<^verbatim>\<open>onDelete\<close> as
  confirmations, so none without the confirmation gate.
\<close>

theorem delete_flow:
  assumes nonempty: "Object_keys rowSelection \<noteq> []"
    and sel: "selectsPositions rowSelection idxs flat"
  shows "run rowSelection flat [ClickDeleteSelected, ConfirmDialog]
           = \<lparr>dialogOpen = False,
              journal = [Called (OnDelete (map (\<lambda>i. FlattenedSurveyPoint.id' (flat ! i)) idxs))]\<rparr>
         \<and> run rowSelection flat [ClickDeleteSelected, CancelDialog] = initial
         \<and> length (filter isOnDelete (journal (run rowSelection flat evs)))
             \<le> count_list evs ConfirmDialog"
proof -
  from sel have "handleDelete rowSelection flat
      = Inr [OnDelete (map (\<lambda>i. FlattenedSurveyPoint.id' (flat ! i)) idxs)]"
    by (simp add: handleDelete_def selectsPositions_def selectedIds_positions)
  with nonempty have "run rowSelection flat [ClickDeleteSelected, ConfirmDialog]
           = \<lparr>dialogOpen = False,
              journal = [Called (OnDelete (map (\<lambda>i. FlattenedSurveyPoint.id' (flat ! i)) idxs))]\<rparr>"
    by (simp add: run_def initial_def bulkActionsDisabled_def outcome_def)
  moreover from nonempty have "run rowSelection flat [ClickDeleteSelected, CancelDialog] = initial"
    by (simp add: run_def initial_def bulkActionsDisabled_def)
  ultimately show ?thesis
    using run_onDelete_count [of rowSelection flat evs] by blast
qed

theorem delete_flow_witness:
  "Object_keys [(''0'', True), (''2'', True)] \<noteq> []
   \<and> selectsPositions [(''0'', True), (''2'', True)] [0, 2]
       (sampleRows [(''A'', False), (''B'', False), (''C'', True)])
   \<and> run [(''0'', True), (''2'', True)] (sampleRows [(''A'', False), (''B'', False), (''C'', True)])
       [ClickDeleteSelected, ConfirmDialog]
     = \<lparr>dialogOpen = False, journal = [Called (OnDelete [''A'', ''C''])]\<rparr>
   \<and> run [(''0'', True), (''2'', True)] (sampleRows [(''A'', False), (''B'', False), (''C'', True)])
       [ClickDeleteSelected, CancelDialog]
     = initial
   \<and> length (filter isOnDelete (journal
        (run [(''0'', True), (''2'', True)]
           (sampleRows [(''A'', False), (''B'', False), (''C'', True)])
           [ClickDeleteSelected, CancelDialog, ClickToggleDisableSelected])))
     \<le> 0"
proof -
  have nonempty: "Object_keys [(''0'', True), (''2'', True)] \<noteq> []"
    by (simp add: Object_keys_def)
  have sel: "selectsPositions [(''0'', True), (''2'', True)] [0, 2]
       (sampleRows [(''A'', False), (''B'', False), (''C'', True)])"
    by code_simp
  have ids: "map (\<lambda>i. FlattenedSurveyPoint.id'
                 (sampleRows [(''A'', False), (''B'', False), (''C'', True)] ! i)) [0, 2]
             = [''A'', ''C'']"
    by code_simp
  from delete_flow
         [OF nonempty sel, of "[ClickDeleteSelected, CancelDialog, ClickToggleDisableSelected]"]
       ids nonempty sel
  show ?thesis
    by simp
qed

section \<open>Empty selection\<close>

text \<open>
  C8. Whenever the selection is empty, both bulk actions are disabled: whatever the
  user does on the delete control, its dialog and the toggle control, the dialog never
  opens, nothing is thrown, and neither \<^verbatim>\<open>onDelete\<close> nor the per-record update is called.
\<close>

theorem empty_selection_disables_bulk_actions:
  assumes "Object_keys rowSelection = []"
  shows "bulkActionsDisabled rowSelection
         \<and> run rowSelection flat evs = initial
         \<and> journal (run rowSelection flat evs) = []"
proof -
  from assms have dis: "bulkActionsDisabled rowSelection"
    by (simp add: bulkActionsDisabled_def)
  then have "run rowSelection flat evs = initial"
    unfolding run_def by (rule foldl_disabled) (simp add: initial_def)
  with dis show ?thesis by (simp add: initial_def)
qed

theorem empty_selection_disables_bulk_actions_witness:
  "Object_keys [] = []
   \<and> run [] (sampleRows [(''A'', False), (''B'', True)])
       [ClickDeleteSelected, ConfirmDialog, ClickToggleDisableSelected, CancelDialog]
     = initial"
proof -
  have e: "Object_keys [] = []"
    by (simp add: Object_keys_def)
  from empty_selection_disables_bulk_actions [OF e] e show ?thesis
    by blast
qed

section \<open>Initial column visibility\<close>

text \<open>
  C5, as stated, fails: the table defines the columns \<^verbatim>\<open>udpDownloadMbps\<close> and
  \<^verbatim>\<open>udpUploadMbps\<close>, and the initial visibility state has no entry for either.
\<close>

theorem columnVisibility_lacks_udp_counterexample:
  "''udpDownloadMbps'' \<in> set (map columnId columns)
   \<and> map_of columnVisibility ''udpDownloadMbps'' = None
   \<and> ''udpUploadMbps'' \<in> set (map columnId columns)
   \<and> map_of columnVisibility ''udpUploadMbps'' = None"
  by code_simp

text \<open>
  C5, amended. At initialization the column-visibility state holds a boolean entry for
  every column key of the table except \<^verbatim>\<open>udpDownloadMbps\<close> and \<^verbatim>\<open>udpUploadMbps\<close>, which
  have none, and for no other key; nine keys are visible, the other nine hidden. The
  state is a constant, so it does not depend on the data.
\<close>

theorem columnVisibility_defaults:
  "filter (\<lambda>k. map_of columnVisibility k = None) (map columnId columns)
     = [''udpDownloadMbps'', ''udpUploadMbps'']
   \<and> list_all (\<lambda>k. k \<in> set (map columnId columns)) (map fst columnVisibility)
   \<and> distinct (map fst columnVisibility)
   \<and> map fst (filter snd columnVisibility)
     = [''select'', ''id'', ''signalQuality'', ''bssid'', ''frequency'', ''tcpDownloadMbps'',
        ''tcpUploadMbps'', ''timestamp'', ''disable'']
   \<and> map fst (filter (\<lambda>e. \<not> snd e) columnVisibility)
     = [''rssi'', ''ssid'', ''security'', ''txRate'', ''phyMode'', ''channelWidth'', ''channel'',
        ''x'', ''y'']"
  by code_simp

end
